theory Spec2Isabelle
  imports Complex_Main "HOL-Library.AList"
begin

section \<open>JavaScript values of a request body\<close>

text \<open>
  \<open>express.json()\<close> hands every handler the parsed JSON body. A value is one of the
  JSON kinds, or \<open>undefined\<close> when a property is read that the object does not have.
  A number literal of JSON is a finite decimal, kept here as a rational: the handlers
  only compare a number with 0 and pass it on.
\<close>

datatype jsval =
    JUndefined
  | JNull
  | JBool bool
  | JNum rat
  | JStr string
  | JArr "jsval list"
  | JObj "(string \<times> jsval) list"

type_synonym jsobj = "(string \<times> jsval) list"

text \<open>\<open>data.K\<close>: the value of property \<open>K\<close>, \<open>undefined\<close> when the object has none.\<close>

definition field :: "jsobj \<Rightarrow> string \<Rightarrow> jsval" where
  "field data k = (case map_of data k of None \<Rightarrow> JUndefined | Some v \<Rightarrow> v)"

text \<open>The truth value JavaScript gives a value in \<open>!v\<close>, \<open>v || w\<close> and \<open>if (v)\<close>.\<close>

fun truthy :: "jsval \<Rightarrow> bool" where
  "truthy JUndefined = False"
| "truthy JNull = False"
| "truthy (JBool b) = b"
| "truthy (JNum n) = (n \<noteq> 0)"
| "truthy (JStr s) = (s \<noteq> [])"
| "truthy (JArr xs) = True"
| "truthy (JObj kvs) = True"

fun typeof :: "jsval \<Rightarrow> string" where
  "typeof JUndefined = ''undefined''"
| "typeof JNull = ''object''"
| "typeof (JBool b) = ''boolean''"
| "typeof (JNum n) = ''number''"
| "typeof (JStr s) = ''string''"
| "typeof (JArr xs) = ''object''"
| "typeof (JObj kvs) = ''object''"

text \<open>\<open>xs.includes(v)\<close> on an array of strings: some element is the same value.\<close>

definition array_includes :: "jsval list \<Rightarrow> jsval \<Rightarrow> bool" where
  "array_includes xs v = (v \<in> set xs)"

text \<open>
  \<open>v < c\<close> for a numeric constant \<open>c\<close>. \<open>validateProperty\<close> reaches the comparison only
  after \<open>typeof v\<close> was seen to be \<open>number\<close>, so only the first equation is ever used.
\<close>

fun less_num :: "jsval \<Rightarrow> rat \<Rightarrow> bool" where
  "less_num (JNum n) c = (n < c)"
| "less_num v c = False"

section \<open>Validation and sanitization\<close>

text \<open>
  \<open>validateProperty(data)\<close> returns the message of the first check that fails, or
  \<open>null\<close> (here \<open>None\<close>). The six checks are in the order of the source.
\<close>

definition validateProperty :: "jsobj \<Rightarrow> string option" where
  "validateProperty data =
     (if \<not> truthy (field data ''PropertyID'') \<or> typeof (field data ''PropertyID'') \<noteq> ''string''
      then Some ''Invalid PropertyID''
      else if \<not> truthy (field data ''Title'') \<or> typeof (field data ''Title'') \<noteq> ''string''
      then Some ''Invalid Title''
      else if \<not> truthy (field data ''Description'') \<or> typeof (field data ''Description'') \<noteq> ''string''
      then Some ''Invalid Description''
      else if \<not> array_includes [JStr ''Rent'', JStr ''Sale''] (field data ''PropertyType'')
      then Some ''Invalid PropertyType (Must be 'Rent' or 'Sale')''
      else if typeof (field data ''Price'') \<noteq> ''number'' \<or> less_num (field data ''Price'') 0
      then Some ''Invalid Price''
      else if \<not> truthy (field data ''PropertyLocation'') \<or> typeof (field data ''PropertyLocation'') \<noteq> ''string''
      then Some ''Invalid PropertyLocation''
      else None)"

text \<open>
  \<open>xss\<close> is the entry point of the npm package \<open>xss\<close>, which is not part of this
  repository. Its markup filter is the parameter \<open>flt\<close>. What is fixed here is what
  the entry point does around the filter: it starts with \<open>html = html || ""\<close>, so a falsy
  argument (an absent field among them) gives the empty string, and it always returns a
  string.
\<close>

definition xss :: "(jsval \<Rightarrow> string) \<Rightarrow> jsval \<Rightarrow> jsval" where
  "xss flt html = (if truthy html then JStr (flt html) else JStr [])"

definition sanitizeInput :: "(jsval \<Rightarrow> string) \<Rightarrow> jsobj \<Rightarrow> jsobj" where
  "sanitizeInput flt data =
     [(''PropertyID'', xss flt (field data ''PropertyID'')),
      (''Title'', xss flt (field data ''Title'')),
      (''Description'', xss flt (field data ''Description'')),
      (''PropertyType'', xss flt (field data ''PropertyType'')),
      (''Price'', field data ''Price''),
      (''PropertyLocation'', xss flt (field data ''PropertyLocation''))]"

section \<open>The table\<close>

text \<open>
  The table \<open>RealEstateListings\<close> lives in DynamoDB, outside the repository; the
  Terraform file declares it with the string attribute \<open>PropertyID\<close> as its hash
  key. A row is the item stored under a key. The rows are kept as a list in the order
  a scan meets them. \<open>sends\<close> counts the calls of \<open>docClient.send\<close>, so that "no store
  operation was performed" can be said of a request.
\<close>

type_synonym item = "(string \<times> jsval) list"

record db =
  rows :: "(string \<times> item) list"
  sends :: nat

text \<open>The two condition expressions the handlers use, both on \<open>PropertyID\<close>.\<close>

datatype condition = attribute_exists | attribute_not_exists

datatype command =
    PutCommand item condition
  | GetCommand string
  | UpdateCommand string "(string \<times> jsval) list" condition
  | DeleteCommand string condition
  | ScanCommand nat

datatype store_error = ConditionalCheckFailed | ValidationException | ServiceFailure

datatype reply =
    Done
  | GetOutput "item option"
  | ScanOutput "item list"

text \<open>
  Every stored item carries its key attribute, so \<open>attribute_exists(PropertyID)\<close> holds of
  the item under a key exactly when there is one.
\<close>

fun holds :: "condition \<Rightarrow> item option \<Rightarrow> bool" where
  "holds attribute_exists old = (old \<noteq> None)"
| "holds attribute_not_exists old = (old = None)"

text \<open>\<open>SET a = v, ...\<close>: each attribute is written in turn, the others are kept.\<close>

fun set_attrs :: "(string \<times> jsval) list \<Rightarrow> item \<Rightarrow> item" where
  "set_attrs [] it = it"
| "set_attrs ((a, v) # avs) it = set_attrs avs (AList.update a v it)"

text \<open>An attribute list in which some value is \<open>undefined\<close>.\<close>

definition carries_undefined :: "(string \<times> jsval) list \<Rightarrow> bool" where
  "carries_undefined avs = (JUndefined \<in> snd ` set avs)"

text \<open>
  Modelled from the spec: the key-value store, an external collaborator of which the
  repository holds only the calls. It "supports get-by-key, conditional put (fails if key
  exists), conditional update (fails if key absent), conditional delete (fails if key
  absent), and a bounded scan", and a call can fail for reasons of its own ("store/transport
  failure"): \<open>up\<close> says whether the store answers this call. A put writes the item under
  the string that is its \<open>PropertyID\<close>; a command whose condition fails changes no row. An
  update whose condition holds of an absent key would create the row, which is why the
  handlers pass \<open>attribute_exists\<close>. A put or an update that carries an \<open>undefined\<close>
  attribute value is refused before the condition is looked at, whether the key exists or
  not; the update handlers send one for every field they read as \<open>undefined\<close>. Nothing
  else of what DynamoDB requires of a value is modelled.
\<close>

definition send :: "bool \<Rightarrow> command \<Rightarrow> db \<Rightarrow> (store_error + reply) \<times> db" where
  "send up cmd d =
     (let d1 = d\<lparr>sends := Suc (sends d)\<rparr> in
      if \<not> up then (Inl ServiceFailure, d1)
      else case cmd of
        PutCommand it c \<Rightarrow>
          if carries_undefined it then (Inl ValidationException, d1)
          else
            (case field it ''PropertyID'' of
               JStr k \<Rightarrow>
                 if holds c (map_of (rows d) k)
                 then (Inr Done, d1\<lparr>rows := AList.update k it (rows d)\<rparr>)
                 else (Inl ConditionalCheckFailed, d1)
             | _ \<Rightarrow> (Inl ValidationException, d1))
      | GetCommand k \<Rightarrow> (Inr (GetOutput (map_of (rows d) k)), d1)
      | UpdateCommand k avs c \<Rightarrow>
          if carries_undefined avs then (Inl ValidationException, d1)
          else if holds c (map_of (rows d) k)
          then (Inr Done,
                d1\<lparr>rows := AList.update k
                  (set_attrs avs (case map_of (rows d) k of
                                    None \<Rightarrow> [(''PropertyID'', JStr k)]
                                  | Some it \<Rightarrow> it))
                  (rows d)\<rparr>)
          else (Inl ConditionalCheckFailed, d1)
      | DeleteCommand k c \<Rightarrow>
          if holds c (map_of (rows d) k)
          then (Inr Done, d1\<lparr>rows := AList.delete k (rows d)\<rparr>)
          else (Inl ConditionalCheckFailed, d1)
      | ScanCommand n \<Rightarrow> (Inr (ScanOutput (take n (map snd (rows d)))), d1))"

text \<open>\<open>data.Item\<close> and \<open>data.Items\<close> of what a call returned.\<close>

fun Item :: "reply \<Rightarrow> item option" where
  "Item (GetOutput r) = r"
| "Item out = None"

fun Items :: "reply \<Rightarrow> item list" where
  "Items (ScanOutput rs) = rs"
| "Items out = []"

section \<open>The handlers\<close>

text \<open>
  A response is the status given to \<open>res.status\<close> and the object given to \<open>.json\<close>:
  \<open>{message}\<close>, \<open>{error}\<close>, \<open>{error, details}\<close> with the error the store raised, an item,
  or an array of items.
\<close>

datatype payload =
    Message string
  | Error string
  | ErrorDetails string store_error
  | ItemBody item
  | ItemsBody "item list"

record response =
  status :: nat
  json :: payload

text \<open>
  \<open>app.post("/property")\<close>. \<open>if (error)\<close> is taken when \<open>validateProperty\<close> returned a
  message; all its messages are non-empty strings.
\<close>

definition post_property :: "(jsval \<Rightarrow> string) \<Rightarrow> bool \<Rightarrow> jsobj \<Rightarrow> db \<Rightarrow> response \<times> db" where
  "post_property flt up body d =
     (case validateProperty body of
        Some error \<Rightarrow> (\<lparr>status = 400, json = Error error\<rparr>, d)
      | None \<Rightarrow>
          (let sanitized = sanitizeInput flt body in
           case send up (PutCommand sanitized attribute_not_exists) d of
             (Inr out, d') \<Rightarrow> (\<lparr>status = 201, json = Message ''Property created successfully''\<rparr>, d')
           | (Inl err, d') \<Rightarrow> (\<lparr>status = 500, json = ErrorDetails ''Error creating property'' err\<rparr>, d')))"

text \<open>\<open>app.get("/property/:id")\<close>.\<close>

definition get_property :: "bool \<Rightarrow> string \<Rightarrow> db \<Rightarrow> response \<times> db" where
  "get_property up pid d =
     (case send up (GetCommand pid) d of
        (Inr data, d') \<Rightarrow>
          (case Item data of
             None \<Rightarrow> (\<lparr>status = 404, json = Error ''Property not found''\<rparr>, d')
           | Some it \<Rightarrow> (\<lparr>status = 201, json = ItemBody it\<rparr>, d'))
      | (Inl err, d') \<Rightarrow> (\<lparr>status = 500, json = ErrorDetails ''Error fetching property'' err\<rparr>, d'))"

text \<open>
  \<open>app.put("/property/:id")\<close>. The five values are read from the sanitized body, and the
  request is refused when none of them is truthy.
\<close>

definition put_property :: "(jsval \<Rightarrow> string) \<Rightarrow> bool \<Rightarrow> string \<Rightarrow> jsobj \<Rightarrow> db \<Rightarrow> response \<times> db" where
  "put_property flt up pid body d =
     (let sanitized = sanitizeInput flt body;
          Title = field sanitized ''Title'';
          Description = field sanitized ''Description'';
          PropertyType = field sanitized ''PropertyType'';
          Price = field sanitized ''Price'';
          PropertyLocation = field sanitized ''PropertyLocation''
      in
      if \<not> truthy Title \<and> \<not> truthy Description \<and> \<not> truthy PropertyType \<and> \<not> truthy Price
           \<and> \<not> truthy PropertyLocation
      then (\<lparr>status = 400, json = Error ''No fields to update''\<rparr>, d)
      else
        case send up
               (UpdateCommand pid
                  [(''Title'', Title), (''Description'', Description),
                   (''PropertyType'', PropertyType), (''Price'', Price),
                   (''PropertyLocation'', PropertyLocation)]
                  attribute_exists) d of
          (Inr out, d') \<Rightarrow> (\<lparr>status = 200, json = Message ''Property updated successfully''\<rparr>, d')
        | (Inl err, d') \<Rightarrow> (\<lparr>status = 500, json = ErrorDetails ''Error updating property'' err\<rparr>, d'))"

text \<open>\<open>app.delete("/property/:id")\<close>.\<close>

definition delete_property :: "bool \<Rightarrow> string \<Rightarrow> db \<Rightarrow> response \<times> db" where
  "delete_property up pid d =
     (case send up (DeleteCommand pid attribute_exists) d of
        (Inr out, d') \<Rightarrow> (\<lparr>status = 200, json = Message ''Property deleted successfully''\<rparr>, d')
      | (Inl err, d') \<Rightarrow> (\<lparr>status = 500, json = ErrorDetails ''Error deleting property'' err\<rparr>, d'))"

text \<open>\<open>app.get("/properties")\<close>.\<close>

definition get_properties :: "bool \<Rightarrow> db \<Rightarrow> response \<times> db" where
  "get_properties up d =
     (case send up (ScanCommand 10) d of
        (Inr data, d') \<Rightarrow> (\<lparr>status = 200, json = ItemsBody (Items data)\<rparr>, d')
      | (Inl err, d') \<Rightarrow> (\<lparr>status = 500, json = ErrorDetails ''Error fetching properties'' err\<rparr>, d'))"

subsection \<open>The second variant of the file\<close>

text \<open>
  The second copy of \<open>index.js\<close> does not load \<open>xss\<close> and has no \<open>sanitizeInput\<close>. Its
  \<open>validateProperty\<close> and its read, delete and list handlers are the ones above, word
  for word; create stores \<open>req.body\<close> as it came, update reads the five values from
  \<open>req.body\<close>.
\<close>

definition post_property_v2 :: "bool \<Rightarrow> jsobj \<Rightarrow> db \<Rightarrow> response \<times> db" where
  "post_property_v2 up body d =
     (case validateProperty body of
        Some error \<Rightarrow> (\<lparr>status = 400, json = Error error\<rparr>, d)
      | None \<Rightarrow>
          (case send up (PutCommand body attribute_not_exists) d of
             (Inr out, d') \<Rightarrow> (\<lparr>status = 201, json = Message ''Property created successfully''\<rparr>, d')
           | (Inl err, d') \<Rightarrow> (\<lparr>status = 500, json = ErrorDetails ''Error creating property'' err\<rparr>, d')))"

definition put_property_v2 :: "bool \<Rightarrow> string \<Rightarrow> jsobj \<Rightarrow> db \<Rightarrow> response \<times> db" where
  "put_property_v2 up pid body d =
     (let Title = field body ''Title'';
          Description = field body ''Description'';
          PropertyType = field body ''PropertyType'';
          Price = field body ''Price'';
          PropertyLocation = field body ''PropertyLocation''
      in
      if \<not> truthy Title \<and> \<not> truthy Description \<and> \<not> truthy PropertyType \<and> \<not> truthy Price
           \<and> \<not> truthy PropertyLocation
      then (\<lparr>status = 400, json = Error ''No fields to update''\<rparr>, d)
      else
        case send up
               (UpdateCommand pid
                  [(''Title'', Title), (''Description'', Description),
                   (''PropertyType'', PropertyType), (''Price'', Price),
                   (''PropertyLocation'', PropertyLocation)]
                  attribute_exists) d of
          (Inr out, d') \<Rightarrow> (\<lparr>status = 200, json = Message ''Property updated successfully''\<rparr>, d')
        | (Inl err, d') \<Rightarrow> (\<lparr>status = 500, json = ErrorDetails ''Error updating property'' err\<rparr>, d'))"

section \<open>The specification's words\<close>

text \<open>
  The input constraints of Create as the specification writes them: \<open>PropertyID\<close>,
  \<open>Title\<close>, \<open>Description\<close> and \<open>PropertyLocation\<close> non-empty strings, \<open>PropertyType\<close> one
  of Rent and Sale, \<open>Price\<close> a number that is at least 0; the fields are checked in the
  order of \<open>required_fields\<close>, and the failure names the first offending one.
\<close>

definition required_fields :: "string list" where
  "required_fields =
     [''PropertyID'', ''Title'', ''Description'', ''PropertyType'', ''Price'', ''PropertyLocation'']"

definition non_empty_string :: "jsval \<Rightarrow> bool" where
  "non_empty_string v = (case v of JStr s \<Rightarrow> s \<noteq> [] | _ \<Rightarrow> False)"

definition non_negative_number :: "jsval \<Rightarrow> bool" where
  "non_negative_number v = (case v of JNum n \<Rightarrow> 0 \<le> n | _ \<Rightarrow> False)"

definition meets_constraint :: "string \<Rightarrow> jsval \<Rightarrow> bool" where
  "meets_constraint k v =
     (if k = ''PropertyType'' then v = JStr ''Rent'' \<or> v = JStr ''Sale''
      else if k = ''Price'' then non_negative_number v
      else non_empty_string v)"

definition first_offending :: "jsobj \<Rightarrow> string option" where
  "first_offending data = find (\<lambda>k. \<not> meets_constraint k (field data k)) required_fields"

definition validation_message :: "string \<Rightarrow> string" where
  "validation_message k =
     (if k = ''PropertyType'' then ''Invalid PropertyType (Must be 'Rent' or 'Sale')''
      else ''Invalid '' @ k)"

text \<open>The five fields an update writes, and what it means that a payload supplies none.\<close>

definition mutable_fields :: "string list" where
  "mutable_fields = [''Title'', ''Description'', ''PropertyType'', ''Price'', ''PropertyLocation'']"

definition supplies_nothing :: "jsobj \<Rightarrow> bool" where
  "supplies_nothing body = list_all (\<lambda>k. \<not> truthy (field body k)) mutable_fields"

section \<open>Concrete requests\<close>

text \<open>
  To run the handlers the filter has to be a function. On a string in which no tag of its
  whitelist occurs the package replaces \<open><\<close> by \<open>&lt;\<close> and \<open>>\<close> by \<open>&gt;\<close> and keeps
  the rest; \<open>plain_filter\<close> does that, and it is applied to such strings only.
\<close>

fun escapeHtml :: "string \<Rightarrow> string" where
  "escapeHtml [] = []"
| "escapeHtml (c # cs) =
     (if c = CHR ''<'' then ''&lt;'' else if c = CHR ''>'' then ''&gt;'' else [c]) @ escapeHtml cs"

definition plain_filter :: "jsval \<Rightarrow> string" where
  "plain_filter v = (case v of JStr s \<Rightarrow> escapeHtml s | _ \<Rightarrow> [])"

text \<open>The listing of the specification's first scenario, and a table that holds it.\<close>

definition listing_p1 :: jsobj where
  "listing_p1 =
     [(''PropertyID'', JStr ''p1''), (''Title'', JStr ''A''), (''Description'', JStr ''d''),
      (''PropertyType'', JStr ''Rent''), (''Price'', JNum 100), (''PropertyLocation'', JStr ''X'')]"

definition db_empty :: db where
  "db_empty = \<lparr>rows = [], sends = 0\<rparr>"

definition db_p1 :: db where
  "db_p1 = \<lparr>rows = [(''p1'', listing_p1)], sends = 0\<rparr>"



text \<open>A valid request whose title is a script element.\<close>

definition listing_markup :: jsobj where
  "listing_markup =
     [(''PropertyID'', JStr ''p9''), (''Title'', JStr ''<script>alert(1)</script>''),
      (''Description'', JStr ''d''), (''PropertyType'', JStr ''Sale''), (''Price'', JNum 5),
      (''PropertyLocation'', JStr ''X'')]"

text \<open>The request of the specification's fifth scenario: a negative price.\<close>

definition listing_negative :: jsobj where
  "listing_negative =
     [(''PropertyID'', JStr ''p2''), (''Title'', JStr ''A''), (''Description'', JStr ''d''),
      (''PropertyType'', JStr ''Rent''), (''Price'', JNum (- 5)), (''PropertyLocation'', JStr ''X'')]"

text \<open>Update payloads that supply all five mutable fields.\<close>

definition payload_full :: jsobj where
  "payload_full =
     [(''Title'', JStr ''B''), (''Description'', JStr ''e''), (''PropertyType'', JStr ''Sale''),
      (''Price'', JNum 120), (''PropertyLocation'', JStr ''Y'')]"

definition payload_markup :: jsobj where
  "payload_markup =
     [(''Title'', JStr ''<script>alert(1)</script>''), (''Description'', JStr ''e''),
      (''PropertyType'', JStr ''Sale''), (''Price'', JNum 120), (''PropertyLocation'', JStr ''Y'')]"

definition payload_invalid :: jsobj where
  "payload_invalid =
     [(''Title'', JStr ''B''), (''Description'', JStr ''e''), (''PropertyType'', JStr ''Lease''),
      (''Price'', JStr ''cheap''), (''PropertyLocation'', JStr ''Y'')]"

text \<open>A table of \<open>n\<close> rows, with the keys \<open>p\<close>, \<open>pp\<close>, \<open>ppp\<close> and so on.\<close>

definition db_many :: "nat \<Rightarrow> db" where
  "db_many n =
     \<lparr>rows = map (\<lambda>i. (replicate (Suc i) CHR ''p'',
                        [(''PropertyID'', JStr (replicate (Suc i) CHR ''p''))])) [0..<n],
      sends = 0\<rparr>"

text \<open>The array in a response, empty when the response carries none.\<close>

definition listed :: "response \<Rightarrow> item list" where
  "listed r = (case json r of ItemsBody its \<Rightarrow> its | _ \<Rightarrow> [])"

section \<open>Validation against the specification's constraints\<close>

text \<open>
  Each check of \<open>validateProperty\<close> is the negation of the constraint the specification
  puts on the field, so the function returns the message of the first offending field.
\<close>

lemma chk_str: "(\<not> truthy v \<or> typeof v \<noteq> ''string'') = (\<not> non_empty_string v)"
  by (cases v) (auto simp: non_empty_string_def)

lemma chk_type: "array_includes [JStr ''Rent'', JStr ''Sale''] v = (v = JStr ''Rent'' \<or> v = JStr ''Sale'')"
  by (auto simp: array_includes_def)

lemma chk_price: "(typeof v \<noteq> ''number'' \<or> less_num v 0) = (\<not> non_negative_number v)"
  by (cases v) (auto simp: non_negative_number_def)

lemma validateProperty_spec:
  "validateProperty data = map_option validation_message (first_offending data)"
  unfolding validateProperty_def chk_str chk_type chk_price
  by (simp add: first_offending_def required_fields_def meets_constraint_def validation_message_def)

lemma first_offending_exists:
  assumes "k \<in> set required_fields" and "\<not> meets_constraint k (field body k)"
  shows "\<exists>k'. first_offending body = Some k'"
proof (cases "first_offending body")
  case None
  then have "\<forall>x \<in> set required_fields. meets_constraint x (field body x)"
    by (simp add: first_offending_def find_None_iff)
  with assms show ?thesis by blast
next
  case (Some k')
  then show ?thesis by simp
qed

lemma first_offending_first:
  assumes "first_offending body = Some k'"
  shows "\<exists>i < length required_fields.
           k' = required_fields ! i \<and> \<not> meets_constraint k' (field body k')
           \<and> (\<forall>j < i. meets_constraint (required_fields ! j) (field body (required_fields ! j)))"
  using assms unfolding first_offending_def find_Some_iff by auto

lemma validated_PropertyID:
  assumes "validateProperty body = None"
  shows "\<exists>s. s \<noteq> [] \<and> field body ''PropertyID'' = JStr s"
proof -
  have "first_offending body = None"
    using assms by (simp add: validateProperty_spec)
  then have "meets_constraint ''PropertyID'' (field body ''PropertyID'')"
    by (simp add: first_offending_def required_fields_def split: if_splits)
  then show ?thesis
    by (cases "field body ''PropertyID''")
      (simp_all add: meets_constraint_def non_empty_string_def)
qed

section \<open>The calls to the store\<close>

lemma send_down: "send False cmd d = (Inl ServiceFailure, d\<lparr>sends := Suc (sends d)\<rparr>)"
  by (simp add: send_def Let_def)

lemma send_put:
  "field it ''PropertyID'' = JStr k \<Longrightarrow> \<not> carries_undefined it \<Longrightarrow>
   send True (PutCommand it attribute_not_exists) d =
     (if map_of (rows d) k = None
      then (Inr Done, d\<lparr>sends := Suc (sends d), rows := AList.update k it (rows d)\<rparr>)
      else (Inl ConditionalCheckFailed, d\<lparr>sends := Suc (sends d)\<rparr>))"
  by (simp add: send_def carries_undefined_def Let_def)

lemma send_update:
  "send True (UpdateCommand k avs attribute_exists) d =
     (if carries_undefined avs then (Inl ValidationException, d\<lparr>sends := Suc (sends d)\<rparr>)
      else case map_of (rows d) k of
        None \<Rightarrow> (Inl ConditionalCheckFailed, d\<lparr>sends := Suc (sends d)\<rparr>)
      | Some old \<Rightarrow>
          (Inr Done, d\<lparr>sends := Suc (sends d), rows := AList.update k (set_attrs avs old) (rows d)\<rparr>))"
  by (simp add: send_def carries_undefined_def Let_def split: option.splits)


lemma send_delete:
  "send True (DeleteCommand k attribute_exists) d =
     (if map_of (rows d) k = None
      then (Inl ConditionalCheckFailed, d\<lparr>sends := Suc (sends d)\<rparr>)
      else (Inr Done, d\<lparr>sends := Suc (sends d), rows := AList.delete k (rows d)\<rparr>))"
  by (simp add: send_def Let_def)

lemma send_get:
  "send True (GetCommand k) d = (Inr (GetOutput (map_of (rows d) k)), d\<lparr>sends := Suc (sends d)\<rparr>)"
  by (simp add: send_def Let_def)

lemma send_scan:
  "send True (ScanCommand n) d =
     (Inr (ScanOutput (take n (map snd (rows d)))), d\<lparr>sends := Suc (sends d)\<rparr>)"
  by (simp add: send_def Let_def)

section \<open>What the handlers return\<close>

lemma field_sanitizeInput:
  "field (sanitizeInput flt body) ''PropertyID'' = xss flt (field body ''PropertyID'')"
  "field (sanitizeInput flt body) ''Title'' = xss flt (field body ''Title'')"
  "field (sanitizeInput flt body) ''Description'' = xss flt (field body ''Description'')"
  "field (sanitizeInput flt body) ''PropertyType'' = xss flt (field body ''PropertyType'')"
  "field (sanitizeInput flt body) ''Price'' = field body ''Price''"
  "field (sanitizeInput flt body) ''PropertyLocation'' = xss flt (field body ''PropertyLocation'')"
  by (simp_all add: sanitizeInput_def field_def)

lemma supplies_nothing_sanitized:
  "supplies_nothing body \<Longrightarrow> supplies_nothing (sanitizeInput flt body)"
  by (simp add: supplies_nothing_def mutable_fields_def field_sanitizeInput xss_def)

lemma validated_Price:
  assumes "validateProperty body = None"
  shows "field body ''Price'' \<noteq> JUndefined"
proof
  assume "field body ''Price'' = JUndefined"
  then have "validateProperty body \<noteq> None"
    by (simp add: validateProperty_def)
  with assms show False by simp
qed

lemma sanitized_price_only:
  "carries_undefined (sanitizeInput flt body) = (field body ''Price'' = JUndefined)"
  by (auto simp: carries_undefined_def sanitizeInput_def xss_def)

lemma post_property_valid:
  assumes "validateProperty body = None"
    and "xss flt (field body ''PropertyID'') = JStr k"
  shows "post_property flt True body d =
     (if map_of (rows d) k = None
      then (\<lparr>status = 201, json = Message ''Property created successfully''\<rparr>,
            d\<lparr>sends := Suc (sends d), rows := AList.update k (sanitizeInput flt body) (rows d)\<rparr>)
      else (\<lparr>status = 500, json = ErrorDetails ''Error creating property'' ConditionalCheckFailed\<rparr>,
            d\<lparr>sends := Suc (sends d)\<rparr>))"
  using assms validated_Price [OF assms(1)]
  by (simp add: post_property_def Let_def send_put field_sanitizeInput sanitized_price_only)

lemma post_property_down:
  assumes "validateProperty body = None"
  shows "post_property flt False body d =
     (\<lparr>status = 500, json = ErrorDetails ''Error creating property'' ServiceFailure\<rparr>,
      d\<lparr>sends := Suc (sends d)\<rparr>)"
  using assms by (simp add: post_property_def Let_def send_down)

lemma post_property_invalid:
  assumes "first_offending body = Some k'"
  shows "post_property flt up body d = (\<lparr>status = 400, json = Error (validation_message k')\<rparr>, d)"
  using assms by (simp add: post_property_def validateProperty_spec)

lemma post_property_v2_invalid:
  assumes "first_offending body = Some k'"
  shows "post_property_v2 up body d = (\<lparr>status = 400, json = Error (validation_message k')\<rparr>, d)"
  using assms by (simp add: post_property_v2_def validateProperty_spec)

lemma post_property_v2_valid:
  assumes "validateProperty body = None"
    and "field body ''PropertyID'' = JStr k"
    and "\<not> carries_undefined body"
  shows "post_property_v2 True body d =
     (if map_of (rows d) k = None
      then (\<lparr>status = 201, json = Message ''Property created successfully''\<rparr>,
            d\<lparr>sends := Suc (sends d), rows := AList.update k body (rows d)\<rparr>)
      else (\<lparr>status = 500, json = ErrorDetails ''Error creating property'' ConditionalCheckFailed\<rparr>,
            d\<lparr>sends := Suc (sends d)\<rparr>))"
  using assms by (simp add: post_property_v2_def send_put)

lemma put_property_nothing:
  assumes "supplies_nothing body"
  shows "put_property flt up pid body d = (\<lparr>status = 400, json = Error ''No fields to update''\<rparr>, d)"
  using assms
  by (simp add: put_property_def Let_def field_sanitizeInput xss_def supplies_nothing_def mutable_fields_def)

lemma put_property_v2_nothing:
  assumes "supplies_nothing body"
  shows "put_property_v2 up pid body d = (\<lparr>status = 400, json = Error ''No fields to update''\<rparr>, d)"
  using assms
  by (simp add: put_property_v2_def Let_def supplies_nothing_def mutable_fields_def)

lemma put_property_something:
  assumes "\<not> supplies_nothing (sanitizeInput flt body)"
  shows "put_property flt True pid body d =
     (if field body ''Price'' = JUndefined
      then (\<lparr>status = 500, json = ErrorDetails ''Error updating property'' ValidationException\<rparr>,
            d\<lparr>sends := Suc (sends d)\<rparr>)
      else case map_of (rows d) pid of
        None \<Rightarrow> (\<lparr>status = 500, json = ErrorDetails ''Error updating property'' ConditionalCheckFailed\<rparr>,
                 d\<lparr>sends := Suc (sends d)\<rparr>)
      | Some old \<Rightarrow>
          (\<lparr>status = 200, json = Message ''Property updated successfully''\<rparr>,
           d\<lparr>sends := Suc (sends d),
             rows := AList.update pid
               (set_attrs [(''Title'', xss flt (field body ''Title'')),
                           (''Description'', xss flt (field body ''Description'')),
                           (''PropertyType'', xss flt (field body ''PropertyType'')),
                           (''Price'', field body ''Price''),
                           (''PropertyLocation'', xss flt (field body ''PropertyLocation''))] old)
               (rows d)\<rparr>))"
proof -
  let ?avs = "[(''Title'', xss flt (field body ''Title'')),
               (''Description'', xss flt (field body ''Description'')),
               (''PropertyType'', xss flt (field body ''PropertyType'')),
               (''Price'', field body ''Price''),
               (''PropertyLocation'', xss flt (field body ''PropertyLocation''))]"
  have c: "carries_undefined ?avs = (field body ''Price'' = JUndefined)"
    by (auto simp: carries_undefined_def xss_def)
  have s: "put_property flt True pid body d =
      (case send True (UpdateCommand pid ?avs attribute_exists) d of
         (Inr out, d') \<Rightarrow> (\<lparr>status = 200, json = Message ''Property updated successfully''\<rparr>, d')
       | (Inl err, d') \<Rightarrow> (\<lparr>status = 500, json = ErrorDetails ''Error updating property'' err\<rparr>, d'))"
    using assms
    by (auto simp: put_property_def Let_def field_sanitizeInput supplies_nothing_def
        mutable_fields_def)
  show ?thesis
    unfolding s send_update c by (simp split: option.splits)
qed

lemma put_property_something_down:
  assumes "\<not> supplies_nothing (sanitizeInput flt body)"
  shows "put_property flt False pid body d =
     (\<lparr>status = 500, json = ErrorDetails ''Error updating property'' ServiceFailure\<rparr>,
      d\<lparr>sends := Suc (sends d)\<rparr>)"
  using assms
  by (auto simp: put_property_def Let_def field_sanitizeInput supplies_nothing_def mutable_fields_def
      send_down)

lemma put_property_accepted:
  assumes "put_property flt up pid body d = (r, d')" and "status r = 200"
  shows "\<exists>old. map_of (rows d) pid = Some old
           \<and> d' = d\<lparr>sends := Suc (sends d),
                   rows := AList.update pid
                     (set_attrs [(''Title'', xss flt (field body ''Title'')),
                                 (''Description'', xss flt (field body ''Description'')),
                                 (''PropertyType'', xss flt (field body ''PropertyType'')),
                                 (''Price'', field body ''Price''),
                                 (''PropertyLocation'', xss flt (field body ''PropertyLocation''))] old)
                     (rows d)\<rparr>"
proof -
  have n: "\<not> supplies_nothing (sanitizeInput flt body)"
  proof
    assume "supplies_nothing (sanitizeInput flt body)"
    then have "put_property flt up pid body d
        = (\<lparr>status = 400, json = Error ''No fields to update''\<rparr>, d)"
      by (simp add: put_property_def Let_def supplies_nothing_def mutable_fields_def)
    with assms show False by auto
  qed
  have u: up
    using assms n by (cases up) (auto simp: put_property_something_down)
  show ?thesis
    using assms n u by (auto simp: put_property_something split: option.splits if_splits)
qed

lemma delete_property_eq:
  "delete_property up pid d =
     (if \<not> up then (\<lparr>status = 500, json = ErrorDetails ''Error deleting property'' ServiceFailure\<rparr>,
                     d\<lparr>sends := Suc (sends d)\<rparr>)
      else if map_of (rows d) pid = None
      then (\<lparr>status = 500, json = ErrorDetails ''Error deleting property'' ConditionalCheckFailed\<rparr>,
            d\<lparr>sends := Suc (sends d)\<rparr>)
      else (\<lparr>status = 200, json = Message ''Property deleted successfully''\<rparr>,
            d\<lparr>sends := Suc (sends d), rows := AList.delete pid (rows d)\<rparr>))"
  by (cases up) (simp_all add: delete_property_def send_down send_delete)

lemma get_property_eq:
  "get_property up pid d =
     (if \<not> up then (\<lparr>status = 500, json = ErrorDetails ''Error fetching property'' ServiceFailure\<rparr>,
                     d\<lparr>sends := Suc (sends d)\<rparr>)
      else case map_of (rows d) pid of
        None \<Rightarrow> (\<lparr>status = 404, json = Error ''Property not found''\<rparr>, d\<lparr>sends := Suc (sends d)\<rparr>)
      | Some it \<Rightarrow> (\<lparr>status = 201, json = ItemBody it\<rparr>, d\<lparr>sends := Suc (sends d)\<rparr>))"
  by (cases up) (simp_all add: get_property_def send_down send_get split: option.splits)

lemma get_property_found:
  "map_of (rows d) pid = Some it \<Longrightarrow>
   get_property True pid d = (\<lparr>status = 201, json = ItemBody it\<rparr>, d\<lparr>sends := Suc (sends d)\<rparr>)"
  by (simp add: get_property_eq)

lemma get_property_missing:
  "map_of (rows d) pid = None \<Longrightarrow>
   get_property True pid d =
     (\<lparr>status = 404, json = Error ''Property not found''\<rparr>, d\<lparr>sends := Suc (sends d)\<rparr>)"
  by (simp add: get_property_eq)

lemma get_properties_eq:
  "get_properties up d =
     (if up then (\<lparr>status = 200, json = ItemsBody (take 10 (map snd (rows d)))\<rparr>,
                  d\<lparr>sends := Suc (sends d)\<rparr>)
      else (\<lparr>status = 500, json = ErrorDetails ''Error fetching properties'' ServiceFailure\<rparr>,
            d\<lparr>sends := Suc (sends d)\<rparr>))"
  by (cases up) (simp_all add: get_properties_def send_down send_scan)


lemma create_stores_sanitized:
  assumes "post_property flt up body d = (r, d')" and "status r = 201"
  shows "\<exists>k. xss flt (field body ''PropertyID'') = JStr k
           \<and> map_of (rows d) k = None
           \<and> map_of (rows d') k = Some (sanitizeInput flt body)"
proof -
  have v: "validateProperty body = None"
    using assms by (cases "validateProperty body") (auto simp: post_property_def)
  then obtain s where s: "s \<noteq> []" "field body ''PropertyID'' = JStr s"
    using validated_PropertyID by blast
  then have k: "xss flt (field body ''PropertyID'') = JStr (flt (JStr s))"
    by (simp add: xss_def)
  have u: up
    using assms v by (cases up) (auto simp: post_property_down)
  show ?thesis
    using assms v k u
    by (auto simp: post_property_valid update_conv' split: if_splits)
qed

section \<open>The claims\<close>

subsection \<open>Create and an identifier that is taken\<close>




subsection \<open>Update and delete of an identifier that is absent\<close>

text \<open>
  Claim C2, as the code has it. When no listing is stored under the identifier, a delete
  is answered 500 by the rejection of the conditional guard, and so is an update whose
  payload has a \<open>Price\<close> and, once sanitized, a truthy mutable field. An update whose
  sanitized payload holds no truthy mutable field is answered 400 before any call. An
  update with a truthy field and no \<open>Price\<close> sends the price as \<open>undefined\<close>; the store
  refuses it for that, before the guard, and it is answered 500. When the store does not
  answer, the answer is 500 as well. In each case the rows are unchanged, and no listing
  is stored under the identifier afterwards.
\<close>

theorem update_delete_absent_rejected:
  assumes "map_of (rows d) pid = None"
  shows "put_property flt up pid body d =
           (if supplies_nothing (sanitizeInput flt body)
            then (\<lparr>status = 400, json = Error ''No fields to update''\<rparr>, d)
            else (\<lparr>status = 500,
                   json = ErrorDetails ''Error updating property''
                            (if \<not> up then ServiceFailure
                             else if field body ''Price'' = JUndefined then ValidationException
                             else ConditionalCheckFailed)\<rparr>,
                  d\<lparr>sends := Suc (sends d)\<rparr>))
         \<and> delete_property up pid d =
             (\<lparr>status = 500,
               json = ErrorDetails ''Error deleting property''
                        (if up then ConditionalCheckFailed else ServiceFailure)\<rparr>,
              d\<lparr>sends := Suc (sends d)\<rparr>)
         \<and> rows (snd (put_property flt up pid body d)) = rows d
         \<and> rows (snd (delete_property up pid d)) = rows d
         \<and> map_of (rows (snd (put_property flt up pid body d))) pid = None
         \<and> map_of (rows (snd (delete_property up pid d))) pid = None"
proof -
  have p: "put_property flt up pid body d =
           (if supplies_nothing (sanitizeInput flt body)
            then (\<lparr>status = 400, json = Error ''No fields to update''\<rparr>, d)
            else (\<lparr>status = 500,
                   json = ErrorDetails ''Error updating property''
                            (if \<not> up then ServiceFailure
                             else if field body ''Price'' = JUndefined then ValidationException
                             else ConditionalCheckFailed)\<rparr>,
                  d\<lparr>sends := Suc (sends d)\<rparr>))"
  proof (cases "supplies_nothing (sanitizeInput flt body)")
    case True
    then have "put_property flt up pid body d
        = (\<lparr>status = 400, json = Error ''No fields to update''\<rparr>, d)"
      by (simp add: put_property_def Let_def supplies_nothing_def mutable_fields_def)
    with True show ?thesis by simp
  next
    case False
    then show ?thesis
      using assms by (cases up) (simp_all add: put_property_something put_property_something_down)
  qed
  have q: "delete_property up pid d =
             (\<lparr>status = 500,
               json = ErrorDetails ''Error deleting property''
                        (if up then ConditionalCheckFailed else ServiceFailure)\<rparr>,
              d\<lparr>sends := Suc (sends d)\<rparr>)"
    using assms by (simp add: delete_property_eq)
  show ?thesis
    using assms by (simp add: p q)
qed

theorem update_delete_absent_rejected_witness:
  "map_of (rows db_p1) ''p2'' = None
   \<and> put_property plain_filter True ''p2'' payload_full db_p1 =
       (\<lparr>status = 500, json = ErrorDetails ''Error updating property'' ConditionalCheckFailed\<rparr>,
        db_p1\<lparr>sends := Suc (sends db_p1)\<rparr>)
   \<and> delete_property True ''p2'' db_p1 =
       (\<lparr>status = 500, json = ErrorDetails ''Error deleting property'' ConditionalCheckFailed\<rparr>,
        db_p1\<lparr>sends := Suc (sends db_p1)\<rparr>)"
proof -
  have m: "map_of (rows db_p1) ''p2'' = None"
    by (simp add: db_p1_def)
  have n: "\<not> supplies_nothing (sanitizeInput plain_filter payload_full)"
    by (simp add: supplies_nothing_def mutable_fields_def sanitizeInput_def xss_def
        plain_filter_def field_def payload_full_def)
  have pr: "field payload_full ''Price'' \<noteq> JUndefined"
    by (simp add: field_def payload_full_def)
  show ?thesis
    using m n pr update_delete_absent_rejected [OF m, of plain_filter True payload_full]
    by simp
qed

text \<open>
  Claim C2 as it is written names the conditional guard as what rejects every such update.
  An update with the empty payload is refused with 400 and no call reaches the store. An
  update with a title and no price reaches the store with an \<open>undefined\<close> price and is
  refused for that.
\<close>

theorem update_absent_counterexample:
  "map_of (rows db_empty) ''ghost'' = None
   \<and> put_property plain_filter True ''ghost'' [] db_empty =
       (\<lparr>status = 400, json = Error ''No fields to update''\<rparr>, db_empty)
   \<and> sends (snd (put_property plain_filter True ''ghost'' [] db_empty)) = 0
   \<and> put_property plain_filter True ''ghost'' [(''Title'', JStr ''B'')] db_empty =
       (\<lparr>status = 500, json = ErrorDetails ''Error updating property'' ValidationException\<rparr>,
        \<lparr>rows = [], sends = 1\<rparr>)"
  by (simp add: put_property_def Let_def sanitizeInput_def xss_def plain_filter_def field_def
      db_empty_def send_def carries_undefined_def)

subsection \<open>Validation of a create request\<close>

text \<open>
  Claim C3. When some required field of a create request does not meet its constraint,
  both variants answer 400 with the message of the first offending field in the order
  \<open>PropertyID\<close>, \<open>Title\<close>, \<open>Description\<close>, \<open>PropertyType\<close>, \<open>Price\<close>, \<open>PropertyLocation\<close>,
  and the table, the count of calls included, is what it was.
\<close>

theorem create_validation_failure:
  assumes "k \<in> set required_fields" and "\<not> meets_constraint k (field body k)"
  shows "\<exists>i < length required_fields.
           first_offending body = Some (required_fields ! i)
           \<and> \<not> meets_constraint (required_fields ! i) (field body (required_fields ! i))
           \<and> (\<forall>j < i. meets_constraint (required_fields ! j) (field body (required_fields ! j)))
           \<and> post_property flt up body d =
               (\<lparr>status = 400, json = Error (validation_message (required_fields ! i))\<rparr>, d)
           \<and> post_property_v2 up body d =
               (\<lparr>status = 400, json = Error (validation_message (required_fields ! i))\<rparr>, d)"
proof -
  from assms obtain k' where k': "first_offending body = Some k'"
    using first_offending_exists by blast
  from first_offending_first [OF k'] obtain i where
    i: "i < length required_fields" "k' = required_fields ! i"
       "\<not> meets_constraint k' (field body k')"
       "\<forall>j < i. meets_constraint (required_fields ! j) (field body (required_fields ! j))"
    by blast
  show ?thesis
    using i k' post_property_invalid [OF k'] post_property_v2_invalid [OF k'] by blast
qed

theorem create_validation_failure_witness:
  "''Price'' \<in> set required_fields
   \<and> \<not> meets_constraint ''Price'' (field listing_negative ''Price'')
   \<and> first_offending listing_negative = Some ''Price''
   \<and> post_property plain_filter True listing_negative db_p1 =
       (\<lparr>status = 400, json = Error ''Invalid Price''\<rparr>, db_p1)"
proof -
  have a: "''Price'' \<in> set required_fields"
    by (simp add: required_fields_def)
  have b: "\<not> meets_constraint ''Price'' (field listing_negative ''Price'')"
    by (simp add: meets_constraint_def non_negative_number_def listing_negative_def field_def)
  have c: "first_offending listing_negative = Some ''Price''"
    by (simp add: first_offending_def required_fields_def meets_constraint_def
        non_negative_number_def non_empty_string_def listing_negative_def field_def)
  from create_validation_failure [OF a b, of plain_filter True db_p1]
  have "post_property plain_filter True listing_negative db_p1 =
       (\<lparr>status = 400, json = Error (validation_message ''Price'')\<rparr>, db_p1)"
    using c by auto
  then show ?thesis
    using a b c by (simp add: validation_message_def)
qed

subsection \<open>Sanitization on create\<close>

text \<open>
  Claim C4 fails in the second variant of the file: it stores the request body as it
  came. A valid request whose title is a script element is accepted, and a read returns
  the title with its markup. (The first variant stores \<open>sanitizeInput\<close> of the body, see
  \<open>create_stores_sanitized\<close> and \<open>field_sanitizeInput\<close>.)
\<close>

theorem create_v2_keeps_markup:
  "field listing_markup ''Title'' = JStr ''<script>alert(1)</script>''
   \<and> post_property_v2 True listing_markup db_empty =
       (\<lparr>status = 201, json = Message ''Property created successfully''\<rparr>,
        \<lparr>rows = [(''p9'', listing_markup)], sends = 1\<rparr>)
   \<and> fst (get_property True ''p9'' \<lparr>rows = [(''p9'', listing_markup)], sends = 1\<rparr>) =
       \<lparr>status = 201, json = ItemBody listing_markup\<rparr>"
  by (simp add: post_property_v2_def validateProperty_def send_def carries_undefined_def Let_def db_empty_def
      listing_markup_def field_def array_includes_def get_property_eq)

subsection \<open>Reading a listing\<close>

text \<open>
  Claim C5 says that a read of a stored listing is answered 200. The handler answers 201,
  in both variants; the test of the repository expects 200.
\<close>

theorem read_existing_status:
  "map_of (rows db_p1) ''p1'' = Some listing_p1
   \<and> get_property True ''p1'' db_p1 =
       (\<lparr>status = 201, json = ItemBody listing_p1\<rparr>, db_p1\<lparr>sends := Suc (sends db_p1)\<rparr>)"
  by (simp add: get_property_eq db_p1_def)

subsection \<open>The frame of an update\<close>

text \<open>
  Claim C6, as the code has it. After an update that was answered 200, the row under the
  identifier existed before, and in the new row each of \<open>Title\<close>, \<open>Description\<close>,
  \<open>PropertyType\<close> and \<open>PropertyLocation\<close> is the sanitized value of the payload, \<open>Price\<close>
  is the value of the payload; a string field the payload does not have becomes the empty
  string, an absent price becomes \<open>undefined\<close>. Every other attribute of the row,
  \<open>PropertyID\<close> among them, and every other row is unchanged.
\<close>

theorem update_rewrites_mutable_fields:
  assumes "put_property flt up pid body d = (r, d')" and "status r = 200"
  shows "\<exists>old new.
           map_of (rows d) pid = Some old \<and> map_of (rows d') pid = Some new
           \<and> field new ''Title'' = xss flt (field body ''Title'')
           \<and> field new ''Description'' = xss flt (field body ''Description'')
           \<and> field new ''PropertyType'' = xss flt (field body ''PropertyType'')
           \<and> field new ''Price'' = field body ''Price''
           \<and> field new ''PropertyLocation'' = xss flt (field body ''PropertyLocation'')
           \<and> (\<forall>a. a \<notin> set mutable_fields \<longrightarrow> map_of new a = map_of old a)
           \<and> field new ''PropertyID'' = field old ''PropertyID''
           \<and> (\<forall>a \<in> set [''Title'', ''Description'', ''PropertyType'', ''PropertyLocation''].
                 map_of body a = None \<longrightarrow> field new a = JStr [])
           \<and> (map_of body ''Price'' = None \<longrightarrow> field new ''Price'' = JUndefined)
           \<and> (\<forall>k. k \<noteq> pid \<longrightarrow> map_of (rows d') k = map_of (rows d) k)"
proof -
  from put_property_accepted [OF assms] obtain old where
    old: "map_of (rows d) pid = Some old" and
    d': "d' = d\<lparr>sends := Suc (sends d),
                   rows := AList.update pid
                     (set_attrs [(''Title'', xss flt (field body ''Title'')),
                                 (''Description'', xss flt (field body ''Description'')),
                                 (''PropertyType'', xss flt (field body ''PropertyType'')),
                                 (''Price'', field body ''Price''),
                                 (''PropertyLocation'', xss flt (field body ''PropertyLocation''))] old)
                     (rows d)\<rparr>"
    by blast
  let ?new = "set_attrs [(''Title'', xss flt (field body ''Title'')),
                                 (''Description'', xss flt (field body ''Description'')),
                                 (''PropertyType'', xss flt (field body ''PropertyType'')),
                                 (''Price'', field body ''Price''),
                                 (''PropertyLocation'', xss flt (field body ''PropertyLocation''))] old"
  have new: "map_of (rows d') pid = Some ?new"
    by (simp add: d' update_conv')
  have others: "\<forall>k. k \<noteq> pid \<longrightarrow> map_of (rows d') k = map_of (rows d) k"
    by (simp add: d' update_conv')
  have m: "map_of ?new =
      (map_of old)(''Title'' \<mapsto> xss flt (field body ''Title''),
                   ''Description'' \<mapsto> xss flt (field body ''Description''),
                   ''PropertyType'' \<mapsto> xss flt (field body ''PropertyType''),
                   ''Price'' \<mapsto> field body ''Price'',
                   ''PropertyLocation'' \<mapsto> xss flt (field body ''PropertyLocation''))"
    by (simp add: update_conv')
  have f: "field ?new ''Title'' = xss flt (field body ''Title'')"
       "field ?new ''Description'' = xss flt (field body ''Description'')"
       "field ?new ''PropertyType'' = xss flt (field body ''PropertyType'')"
       "field ?new ''Price'' = field body ''Price''"
       "field ?new ''PropertyLocation'' = xss flt (field body ''PropertyLocation'')"
       "field ?new ''PropertyID'' = field old ''PropertyID''"
    by (simp_all add: field_def update_conv')
  have frame: "\<forall>a. a \<notin> set mutable_fields \<longrightarrow> map_of ?new a = map_of old a"
    unfolding m by (simp add: mutable_fields_def)
  have absent: "\<forall>a \<in> set [''Title'', ''Description'', ''PropertyType'', ''PropertyLocation''].
                 map_of body a = None \<longrightarrow> field ?new a = JStr []"
    by (simp add: field_def update_conv' xss_def)
  have absent_price: "map_of body ''Price'' = None \<longrightarrow> field ?new ''Price'' = JUndefined"
    by (simp add: field_def update_conv')
  show ?thesis
    by (rule exI [of _ old], rule exI [of _ ?new])
       (intro conjI old new f frame absent absent_price others)
qed

theorem update_rewrites_mutable_fields_witness:
  "put_property plain_filter True ''p1'' payload_full db_p1 =
     (\<lparr>status = 200, json = Message ''Property updated successfully''\<rparr>,
      \<lparr>rows = [(''p1'', (''PropertyID'', JStr ''p1'') # payload_full)], sends = 1\<rparr>)
   \<and> (\<exists>old new. map_of (rows db_p1) ''p1'' = Some old
         \<and> map_of [(''p1'', (''PropertyID'', JStr ''p1'') # payload_full)] ''p1'' = Some new
         \<and> field new ''Title'' = JStr ''B''
         \<and> field new ''Price'' = JNum 120
         \<and> field new ''PropertyID'' = field old ''PropertyID'')"
proof -
  let ?r = "\<lparr>status = 200, json = Message ''Property updated successfully''\<rparr>"
  let ?d = "\<lparr>rows = [(''p1'', (''PropertyID'', JStr ''p1'') # payload_full)], sends = 1\<rparr>"
  have a: "put_property plain_filter True ''p1'' payload_full db_p1 = (?r, ?d)"
    by (simp add: put_property_def Let_def sanitizeInput_def xss_def plain_filter_def field_def
        send_def carries_undefined_def db_p1_def listing_p1_def payload_full_def)
  have b: "status ?r = 200"
    by simp
  from update_rewrites_mutable_fields [OF a b] obtain old new where
    "map_of (rows db_p1) ''p1'' = Some old" "map_of (rows ?d) ''p1'' = Some new"
    "field new ''Title'' = xss plain_filter (field payload_full ''Title'')"
    "field new ''Price'' = field payload_full ''Price''"
    "field new ''PropertyID'' = field old ''PropertyID''"
    by blast
  then have "\<exists>old new. map_of (rows db_p1) ''p1'' = Some old
         \<and> map_of (rows ?d) ''p1'' = Some new
         \<and> field new ''Title'' = JStr ''B''
         \<and> field new ''Price'' = JNum 120
         \<and> field new ''PropertyID'' = field old ''PropertyID''"
    by (simp add: xss_def plain_filter_def field_def payload_full_def)
  with a show ?thesis by simp
qed

text \<open>
  Claim C6 as it is written has the fields rewritten to the supplied values. The title
  \<open><script>alert(1)</script>\<close> of an accepted update is stored with its angle brackets
  escaped, not as it was supplied.
\<close>

theorem update_supplied_values_counterexample:
  "field payload_markup ''Title'' = JStr ''<script>alert(1)</script>''
   \<and> put_property plain_filter True ''p1'' payload_markup db_p1 =
       (\<lparr>status = 200, json = Message ''Property updated successfully''\<rparr>,
        \<lparr>rows = [(''p1'',
                   [(''PropertyID'', JStr ''p1''),
                    (''Title'', JStr ''&lt;script&gt;alert(1)&lt;/script&gt;''),
                    (''Description'', JStr ''e''), (''PropertyType'', JStr ''Sale''),
                    (''Price'', JNum 120), (''PropertyLocation'', JStr ''Y'')])],
         sends = 1\<rparr>)"
  by (simp add: put_property_def Let_def sanitizeInput_def xss_def plain_filter_def field_def
      send_def carries_undefined_def db_p1_def listing_p1_def payload_markup_def)

subsection \<open>An update without fields\<close>

text \<open>
  Claim C7. An update whose payload supplies no truthy mutable field is answered 400 with
  \<open>No fields to update\<close> in both variants, whatever the state of the store, and the count
  of calls to the store is unchanged.
\<close>

theorem update_without_fields_rejected:
  assumes "supplies_nothing body"
  shows "put_property flt up pid body d = (\<lparr>status = 400, json = Error ''No fields to update''\<rparr>, d)
         \<and> put_property_v2 up pid body d = (\<lparr>status = 400, json = Error ''No fields to update''\<rparr>, d)
         \<and> sends (snd (put_property flt up pid body d)) = sends d
         \<and> sends (snd (put_property_v2 up pid body d)) = sends d"
  using assms by (simp add: put_property_nothing put_property_v2_nothing)

theorem update_without_fields_rejected_witness:
  "supplies_nothing [(''Title'', JStr []), (''Price'', JNull)]
   \<and> put_property plain_filter True ''p1'' [(''Title'', JStr []), (''Price'', JNull)] db_p1 =
       (\<lparr>status = 400, json = Error ''No fields to update''\<rparr>, db_p1)
   \<and> put_property_v2 True ''p1'' [(''Title'', JStr []), (''Price'', JNull)] db_p1 =
       (\<lparr>status = 400, json = Error ''No fields to update''\<rparr>, db_p1)"
proof -
  have a: "supplies_nothing [(''Title'', JStr []), (''Price'', JNull)]"
    by (simp add: supplies_nothing_def mutable_fields_def field_def)
  show ?thesis
    using a update_without_fields_rejected [OF a, of plain_filter True "''p1''" db_p1] by simp
qed

subsection \<open>The bound of the list\<close>

text \<open>
  Claim C8. Whatever the table holds, the array in the answer of the list operation has at
  most 10 elements; when the store answers, the status is 200 and the array is the first
  10 rows of the scan.
\<close>

theorem list_at_most_ten:
  "length (listed (fst (get_properties up d))) \<le> 10
   \<and> fst (get_properties True d) = \<lparr>status = 200, json = ItemsBody (take 10 (map snd (rows d)))\<rparr>
   \<and> rows (snd (get_properties up d)) = rows d"
  by (simp add: get_properties_eq listed_def)

theorem list_at_most_ten_witness:
  "length (rows (db_many 11)) = 11
   \<and> length (listed (fst (get_properties True (db_many 11)))) = 10
   \<and> listed (fst (get_properties True db_empty)) = []"
  using list_at_most_ten [of True "db_many 11"] list_at_most_ten [of True db_empty]
  by (simp add: listed_def db_many_def db_empty_def)

subsection \<open>A price of zero alone\<close>

text \<open>
  Claim C9. An update whose payload has \<open>Price\<close> equal to 0 and none of the four other
  mutable fields is answered 400 with \<open>No fields to update\<close>, in both variants.
\<close>

theorem update_price_zero_rejected:
  assumes "field body ''Price'' = JNum 0"
    and "\<forall>k \<in> set [''Title'', ''Description'', ''PropertyType'', ''PropertyLocation'']. map_of body k = None"
  shows "put_property flt up pid body d = (\<lparr>status = 400, json = Error ''No fields to update''\<rparr>, d)
         \<and> put_property_v2 up pid body d = (\<lparr>status = 400, json = Error ''No fields to update''\<rparr>, d)"
proof -
  have "supplies_nothing body"
    using assms by (simp add: supplies_nothing_def mutable_fields_def field_def)
  then show ?thesis
    by (simp add: put_property_nothing put_property_v2_nothing)
qed

theorem update_price_zero_rejected_witness:
  "field [(''Price'', JNum 0)] ''Price'' = JNum 0
   \<and> put_property plain_filter True ''p1'' [(''Price'', JNum 0)] db_p1 =
       (\<lparr>status = 400, json = Error ''No fields to update''\<rparr>, db_p1)
   \<and> put_property_v2 True ''p1'' [(''Price'', JNum 0)] db_p1 =
       (\<lparr>status = 400, json = Error ''No fields to update''\<rparr>, db_p1)
   \<and> map_of (rows db_p1) ''p1'' = Some listing_p1"
proof -
  have a: "field [(''Price'', JNum 0)] ''Price'' = JNum 0"
    by (simp add: field_def)
  have b: "\<forall>k \<in> set [''Title'', ''Description'', ''PropertyType'', ''PropertyLocation''].
             map_of [(''Price'', JNum 0)] k = None"
    by simp
  show ?thesis
    using a update_price_zero_rejected [OF a b, of plain_filter True "''p1''" db_p1]
    by (simp add: db_p1_def)
qed

subsection \<open>No validation on update\<close>

text \<open>
  Claim C10. The listing \<open>p1\<close> passes the validation of create. An update of it with the
  price -5 is answered 200 and leaves a row whose price is negative; in the second
  variant an update with all five fields, the type \<open>Lease\<close> and the price \<open>cheap\<close> among
  them, is answered 200 and leaves these values in the row. Neither row passes the
  validation of create.
\<close>

theorem update_skips_validation:
  "validateProperty listing_p1 = None
   \<and> fst (put_property flt True ''p1'' [(''Price'', JNum (- 5))] db_p1) =
       \<lparr>status = 200, json = Message ''Property updated successfully''\<rparr>
   \<and> (\<exists>row. map_of (rows (snd (put_property flt True ''p1'' [(''Price'', JNum (- 5))] db_p1))) ''p1''
               = Some row
         \<and> field row ''Price'' = JNum (- 5) \<and> less_num (field row ''Price'') 0
         \<and> validateProperty row \<noteq> None)
   \<and> fst (put_property_v2 True ''p1'' payload_invalid db_p1) =
       \<lparr>status = 200, json = Message ''Property updated successfully''\<rparr>
   \<and> (\<exists>row. map_of (rows (snd (put_property_v2 True ''p1'' payload_invalid db_p1))) ''p1''
               = Some row
         \<and> field row ''PropertyType'' = JStr ''Lease'' \<and> field row ''Price'' = JStr ''cheap''
         \<and> validateProperty row = Some ''Invalid PropertyType (Must be 'Rent' or 'Sale')'')"
proof -
  have v: "validateProperty listing_p1 = None"
    by (simp add: validateProperty_def listing_p1_def field_def array_includes_def)
  have a: "put_property flt True ''p1'' [(''Price'', JNum (- 5))] db_p1 =
       (\<lparr>status = 200, json = Message ''Property updated successfully''\<rparr>,
        \<lparr>rows = [(''p1'',
                 [(''PropertyID'', JStr ''p1''), (''Title'', JStr []), (''Description'', JStr []),
                  (''PropertyType'', JStr []), (''Price'', JNum (- 5)),
                  (''PropertyLocation'', JStr [])])],
         sends = 1\<rparr>)"
    by (simp add: put_property_def Let_def sanitizeInput_def xss_def field_def
        send_def carries_undefined_def db_p1_def listing_p1_def)
  have b: "put_property_v2 True ''p1'' payload_invalid db_p1 =
       (\<lparr>status = 200, json = Message ''Property updated successfully''\<rparr>,
        \<lparr>rows = [(''p1'', (''PropertyID'', JStr ''p1'') # payload_invalid)], sends = 1\<rparr>)"
    by (simp add: put_property_v2_def Let_def field_def send_def carries_undefined_def db_p1_def listing_p1_def
        payload_invalid_def)
  show ?thesis
    unfolding a b using v
    by (simp add: field_def validateProperty_def payload_invalid_def array_includes_def)
qed

theorem update_skips_validation_witness:
  "fst (put_property plain_filter True ''p1'' [(''Price'', JNum (- 5))] db_p1) =
       \<lparr>status = 200, json = Message ''Property updated successfully''\<rparr>
   \<and> validateProperty listing_p1 = None"
  using update_skips_validation [of plain_filter] by simp

end
